theory Spec2Isabelle
  imports Complex_Main "HOL-Library.Sublist" "HOL-Library.AList"
begin

section \<open>Strings, lower-casing and the regular expressions of processEntries\<close>

text \<open>
  A transcript is a JavaScript string. It is modelled as a \<open>string\<close>, a list of code
  units below 256 (Basic Latin and Latin-1). \<open>toLowerCase\<close> maps the capital letters of
  that range to their small letters (A to Z, and U+00C0 to U+00DE without the
  multiplication sign U+00D7) and leaves every other code unit unchanged.
\<close>

definition upper_code :: "nat \<Rightarrow> bool" where
  "upper_code n = ((65 \<le> n \<and> n \<le> 90) \<or> (192 \<le> n \<and> n \<le> 222 \<and> n \<noteq> 215))"

definition is_upper :: "char \<Rightarrow> bool" where
  "is_upper c = upper_code (of_char c)"

definition toLowerChar :: "char \<Rightarrow> char" where
  "toLowerChar c = (if is_upper c then char_of ((of_char c :: nat) + 32) else c)"

definition toLowerCase :: "string \<Rightarrow> string" where
  "toLowerCase s = map toLowerChar s"

text \<open>
  Every regular expression of the source is an alternation of literal words with the flag
  \<open>i\<close> and without the flags \<open>g\<close>, \<open>y\<close> and \<open>u\<close>: it is modelled by the list of its
  alternatives. Under the flag \<open>i\<close> two code units match when their canonical forms, the
  upper-case code units, are equal. The small letters of the range go to their capitals;
  the micro sign U+00B5 and U+00FF, whose capitals lie above the range, and the sharp s
  U+00DF, whose upper-case form is two code units, are their own canonical form here, which
  keeps them different from every other code unit of the range.
\<close>

definition lower_code :: "nat \<Rightarrow> bool" where
  "lower_code n = ((97 \<le> n \<and> n \<le> 122) \<or> (224 \<le> n \<and> n \<le> 254 \<and> n \<noteq> 247))"

definition canonicalize :: "char \<Rightarrow> char" where
  "canonicalize c =
     (if lower_code (of_char c) then char_of ((of_char c :: nat) - 32) else c)"

text \<open>One alternative, matched at the start of the remaining text.\<close>

fun match_literal :: "string \<Rightarrow> string \<Rightarrow> bool" where
  "match_literal [] cs = True"
| "match_literal (p # ps) [] = False"
| "match_literal (p # ps) (c # cs) = (canonicalize p = canonicalize c \<and> match_literal ps cs)"

text \<open>
  \<open>regex.test(text)\<close>: the matcher tries the alternatives, left to right, at the first
  position, then at the next, up to the end of the text.
\<close>

fun regex_test :: "string list \<Rightarrow> string \<Rightarrow> bool" where
  "regex_test alts [] = list_ex (\<lambda>p. match_literal p []) alts"
| "regex_test alts (c # cs) =
     (list_ex (\<lambda>p. match_literal p (c # cs)) alts \<or> regex_test alts cs)"

text \<open>
  The words of the specification: a text contains a word when the word is a contiguous
  part of it (\<open>sublist\<close>); it contains the word case-insensitively when the lower-cased
  text contains the lower-cased word. A list of alternatives is in lower case when no
  code unit of it is a capital letter.
\<close>

definition contains_any :: "string list \<Rightarrow> string \<Rightarrow> bool" where
  "contains_any ws text = list_ex (\<lambda>w. sublist w text) ws"

definition contains_ignoring_case :: "string \<Rightarrow> string \<Rightarrow> bool" where
  "contains_ignoring_case w text = sublist (toLowerCase w) (toLowerCase text)"

definition lower_words :: "string list \<Rightarrow> bool" where
  "lower_words alts = list_all (\<lambda>p. list_all (\<lambda>c. \<not> is_upper c) p) alts"

section \<open>Numbers\<close>

text \<open>
  A JavaScript number is NaN, Infinity, -Infinity or a finite double. The function only
  compares the score with the literals 0.3 and -0.1, so a finite number is modelled by a
  real number that keeps the order of the doubles: the double that the literal 0.3 denotes
  stands for 3/10, the double that -0.1 denotes for -1/10, and every other double for its
  own value. Every comparison with NaN is false.
\<close>

datatype number = Finite real | NaN | PosInfinity | NegInfinity

fun number_gt :: "number \<Rightarrow> real \<Rightarrow> bool" where
  "number_gt (Finite x) y = (x > y)"
| "number_gt NaN y = False"
| "number_gt PosInfinity y = True"
| "number_gt NegInfinity y = False"

fun number_lt :: "number \<Rightarrow> real \<Rightarrow> bool" where
  "number_lt (Finite x) y = (x < y)"
| "number_lt NaN y = False"
| "number_lt PosInfinity y = False"
| "number_lt NegInfinity y = True"

text \<open>
  The decimal form of a natural number, as a template literal prints \<open>entries.length\<close> and
  \<open>ideas.length\<close>.
\<close>

definition digit_char :: "nat \<Rightarrow> char" where
  "digit_char d = char_of (48 + d)"

function show_nat :: "nat \<Rightarrow> string" where
  "show_nat n = (if n < 10 then [digit_char n] else show_nat (n div 10) @ [digit_char (n mod 10)])"
  by pat_completeness auto
termination
  by (relation "measure id") auto

declare show_nat.simps [simp del]

section \<open>The tag frequency object\<close>

text \<open>
  \<open>tagFrequencies\<close> starts as the object literal \<open>{}\<close>: an ordinary object whose prototype
  is \<open>Object.prototype\<close>. Its own properties are an association list in insertion order.
  A value stored by the source is a number or, when \<open>+\<close> had a non-number on its left, a
  string.
\<close>

datatype jsvalue = JNumber nat | JString string

type_synonym jsobject = "(string \<times> jsvalue) list"

text \<open>
  The properties every ordinary object inherits from \<open>Object.prototype\<close>, each with the
  string that \<open>+\<close> converts its value to: the methods are native functions (in the form
  Node prints them), and the accessor \<open>__proto__\<close> returns \<open>Object.prototype\<close> itself.
\<close>

definition native_function :: "string \<Rightarrow> string" where
  "native_function name = ''function '' @ name @ ''() { [native code] }''"

definition object_prototype :: "(string \<times> string) list" where
  "object_prototype =
     [(''constructor'', native_function ''Object''),
      (''__defineGetter__'', native_function ''__defineGetter__''),
      (''__defineSetter__'', native_function ''__defineSetter__''),
      (''hasOwnProperty'', native_function ''hasOwnProperty''),
      (''__lookupGetter__'', native_function ''__lookupGetter__''),
      (''__lookupSetter__'', native_function ''__lookupSetter__''),
      (''isPrototypeOf'', native_function ''isPrototypeOf''),
      (''propertyIsEnumerable'', native_function ''propertyIsEnumerable''),
      (''toString'', native_function ''toString''),
      (''valueOf'', native_function ''valueOf''),
      (''__proto__'', ''[object Object]''),
      (''toLocaleString'', native_function ''toLocaleString'')]"

text \<open>
  The result of \<open>obj[key]\<close>: an own property, else an inherited one (an object or a
  function, given by its string form), else \<open>undefined\<close>.
\<close>

datatype property = Own jsvalue | Inherited string | Undefined

definition get_property :: "jsobject \<Rightarrow> string \<Rightarrow> property" where
  "get_property obj key =
     (case map_of obj key of
        Some v \<Rightarrow> Own v
      | None \<Rightarrow> (case map_of object_prototype key of
                   Some s \<Rightarrow> Inherited s
                 | None \<Rightarrow> Undefined))"

text \<open>
  \<open>(obj[key] || 0) + 1\<close>: \<open>undefined\<close>, the number 0 and the empty string are falsy and
  give \<open>0 + 1\<close>; another number is incremented; a non-empty string, an object and a
  function are truthy and \<open>+\<close> appends \<open>"1"\<close> to their string form.
\<close>

fun or_zero_plus_one :: "property \<Rightarrow> jsvalue" where
  "or_zero_plus_one Undefined = JNumber 1"
| "or_zero_plus_one (Own (JNumber n)) = (if n = 0 then JNumber 1 else JNumber (n + 1))"
| "or_zero_plus_one (Own (JString s)) = (if s = [] then JNumber 1 else JString (s @ ''1''))"
| "or_zero_plus_one (Inherited s) = JString (s @ ''1'')"

text \<open>
  \<open>obj[key] = v\<close>: the key \<open>__proto__\<close> reaches the setter of \<open>Object.prototype\<close>, which
  ignores a value that is neither an object nor null; every other key becomes or updates
  an own property.
\<close>

definition set_property :: "jsobject \<Rightarrow> string \<Rightarrow> jsvalue \<Rightarrow> jsobject" where
  "set_property obj key v = (if key = ''__proto__'' then obj else AList.update key v obj)"

section \<open>processEntries\<close>

text \<open>
  Modelled from the spec: the declaration of the type \<open>VoiceEntry\<close> (the module
  \<open>types.js\<close>) is missing. The record has the three fields the function reads, the
  emotion score being a number or null, and two of the further fields the loader fills in;
  any other field is in the extension part of the record.
\<close>

record VoiceEntry =
  entry_id :: string
  user_id :: string
  transcript_user :: string
  tags_model :: "string list"
  tags_user :: "string list"
  emotion_score_score :: "number option"

record Idea =
  task_text :: string
  status :: string
  category :: string
  due_date :: "string option"
  origin_type :: string
  tone :: string
  refinement_level :: string
  belief_level :: string

record ProcessedResult =
  summary :: string
  tagFrequencies :: jsobject
  ideas :: "Idea list"

text \<open>The inner loop over \<open>e.tags_user\<close>.\<close>

definition count_tag :: "jsobject \<Rightarrow> string \<Rightarrow> jsobject" where
  "count_tag tf tag = set_property tf tag (or_zero_plus_one (get_property tf tag))"

definition count_tags :: "jsobject \<Rightarrow> string list \<Rightarrow> jsobject" where
  "count_tags tf tags = foldl count_tag tf tags"

text \<open>The three idea indicators, on the lower-cased transcript.\<close>

definition hasIdeaVerbs :: "string \<Rightarrow> bool" where
  "hasIdeaVerbs text =
     regex_test [''build'', ''create'', ''start'', ''try'', ''make'', ''develop'', ''design'',
                 ''launch''] text"

definition hasIdeaPhrases :: "string \<Rightarrow> bool" where
  "hasIdeaPhrases text =
     regex_test [''just thought of'', ''what if'', ''idea for'', ''thinking about'',
                 ''occurred to me'', ''imagine if'', ''how about''] text"

definition hasFutureIntent :: "string \<Rightarrow> bool" where
  "hasFutureIntent text =
     regex_test [''going to'', ''plan to'', ''want to'', ''would like to'', ''intend to''] text"

definition is_idea :: "'a VoiceEntry_scheme \<Rightarrow> bool" where
  "is_idea e =
     (let text = toLowerCase (transcript_user e)
      in hasIdeaVerbs text \<or> hasIdeaPhrases text \<or> hasFutureIntent text)"

text \<open>The attributes of an idea, in the order of the source.\<close>

definition status_of :: "string \<Rightarrow> string" where
  "status_of text =
     (if regex_test [''already started'', ''in progress'', ''working on''] text
      then ''in progress''
      else if regex_test [''finished'', ''completed'', ''done''] text
      then ''completed''
      else ''new'')"

definition category_of :: "string \<Rightarrow> string" where
  "category_of text =
     (if regex_test [''health'', ''exercise'', ''workout'', ''diet''] text then ''health''
      else if regex_test [''learn'', ''study'', ''course'', ''read''] text then ''learning''
      else if regex_test [''work'', ''job'', ''career'', ''business''] text then ''work''
      else if regex_test [''personal'', ''life'', ''relationship''] text then ''personal''
      else ''general'')"

definition due_date_of :: "string \<Rightarrow> string option" where
  "due_date_of text =
     (if regex_test [''tomorrow''] text then Some ''tomorrow''
      else if regex_test [''next week''] text then Some ''next week''
      else if regex_test [''this weekend''] text then Some ''this weekend''
      else None)"

definition origin_type_of :: "string \<Rightarrow> string" where
  "origin_type_of text = (if hasIdeaPhrases text then ''spontaneous'' else ''planned'')"

definition tone_of :: "number option \<Rightarrow> string" where
  "tone_of score =
     (case score of
        None \<Rightarrow> ''neutral''
      | Some x \<Rightarrow>
          if number_gt x (3 / 10) then ''positive''
          else if number_lt x (- (1 / 10)) then ''negative''
          else ''neutral'')"

definition refinement_level_of :: "string \<Rightarrow> string" where
  "refinement_level_of text =
     (if regex_test [''detailed plan'', ''steps to'', ''process for''] text then ''detailed''
      else if regex_test [''thinking about'', ''considering''] text then ''conceptual''
      else ''initial'')"

definition belief_level_of :: "string \<Rightarrow> string" where
  "belief_level_of text =
     (if regex_test [''definitely'', ''absolutely'', ''must'', ''will''] text then ''high''
      else if regex_test [''maybe'', ''perhaps'', ''might'', ''could''] text then ''low''
      else ''medium'')"

text \<open>The object pushed on \<open>ideas\<close> for an entry that passed the test.\<close>

definition make_idea :: "'a VoiceEntry_scheme \<Rightarrow> Idea" where
  "make_idea e =
     (let text = toLowerCase (transcript_user e)
      in \<lparr> task_text = transcript_user e,
           status = status_of text,
           category = category_of text,
           due_date = due_date_of text,
           origin_type = origin_type_of text,
           tone = tone_of (emotion_score_score e),
           refinement_level = refinement_level_of text,
           belief_level = belief_level_of text \<rparr>)"

text \<open>
  One turn of the loop over the entries, on the two local variables \<open>tagFrequencies\<close> and
  \<open>ideas\<close>; \<open>push\<close> appends at the end.
\<close>

definition process_entry ::
  "jsobject \<times> Idea list \<Rightarrow> 'a VoiceEntry_scheme \<Rightarrow> jsobject \<times> Idea list" where
  "process_entry st e =
     (let tf = count_tags (fst st) (tags_user e)
      in if is_idea e then (tf, snd st @ [make_idea e]) else (tf, snd st))"

definition processEntries :: "'a VoiceEntry_scheme list \<Rightarrow> ProcessedResult" where
  "processEntries entries =
     (let st = foldl process_entry ([], []) entries
      in \<lparr> summary = ''Analysis of '' @ show_nat (length entries) @ '' entries found ''
                       @ show_nat (length (snd st)) @ '' potential ideas'',
           tagFrequencies = fst st,
           ideas = snd st \<rparr>)"

section \<open>The rules in the words of the specification\<close>

text \<open>
  The specification states the rules on the lower-cased transcript with "contains any of"
  a set of words. These definitions follow its words; the theorems below compare them
  with \<open>is_idea\<close> and with the attributes \<open>make_idea\<close> computes.
\<close>

definition spec_is_idea :: "string \<Rightarrow> bool" where
  "spec_is_idea text =
     (contains_any [''build'', ''create'', ''start'', ''try'', ''make'', ''develop'', ''design'',
                    ''launch''] text
      \<or> contains_any [''just thought of'', ''what if'', ''idea for'', ''thinking about'',
                       ''occurred to me'', ''imagine if'', ''how about''] text
      \<or> contains_any [''going to'', ''plan to'', ''want to'', ''would like to'', ''intend to'']
           text)"

definition spec_category :: "string \<Rightarrow> string" where
  "spec_category text =
     (if contains_any [''health'', ''exercise'', ''workout'', ''diet''] text then ''health''
      else if contains_any [''learn'', ''study'', ''course'', ''read''] text then ''learning''
      else if contains_any [''work'', ''job'', ''career'', ''business''] text then ''work''
      else if contains_any [''personal'', ''life'', ''relationship''] text then ''personal''
      else ''general'')"

definition spec_origin_type :: "string \<Rightarrow> string" where
  "spec_origin_type text =
     (if contains_any [''just thought of'', ''what if'', ''idea for'', ''thinking about'',
                       ''occurred to me'', ''imagine if'', ''how about''] text
      then ''spontaneous'' else ''planned'')"

definition spec_tone :: "number option \<Rightarrow> string" where
  "spec_tone score =
     (case score of
        Some (Finite x) \<Rightarrow>
          if x > 3 / 10 then ''positive'' else if x < - (1 / 10) then ''negative'' else ''neutral''
      | Some PosInfinity \<Rightarrow> ''positive''
      | Some NegInfinity \<Rightarrow> ''negative''
      | Some NaN \<Rightarrow> ''neutral''
      | None \<Rightarrow> ''neutral'')"

definition spec_refinement_level :: "string \<Rightarrow> string" where
  "spec_refinement_level text =
     (if contains_any [''detailed plan'', ''steps to'', ''process for''] text then ''detailed''
      else if contains_any [''thinking about'', ''considering''] text then ''conceptual''
      else ''initial'')"

definition spec_status :: "string \<Rightarrow> string" where
  "spec_status text =
     (if contains_any [''already started'', ''in progress'', ''working on''] text
      then ''in progress''
      else if contains_any [''finished'', ''completed'', ''done''] text then ''completed''
      else ''new'')"

definition spec_due_date :: "string \<Rightarrow> string option" where
  "spec_due_date text =
     (if contains_any [''tomorrow''] text then Some ''tomorrow''
      else if contains_any [''next week''] text then Some ''next week''
      else if contains_any [''this weekend''] text then Some ''this weekend''
      else None)"

definition spec_belief_level :: "string \<Rightarrow> string" where
  "spec_belief_level text =
     (if contains_any [''definitely'', ''absolutely'', ''must'', ''will''] text then ''high''
      else if contains_any [''maybe'', ''perhaps'', ''might'', ''could''] text then ''low''
      else ''medium'')"

text \<open>The values the data model of the specification allows in an idea record.\<close>

definition well_formed_idea :: "Idea \<Rightarrow> bool" where
  "well_formed_idea i =
     (status i \<in> set [''new'', ''in progress'', ''completed'']
      \<and> category i \<in> set [''general'', ''health'', ''learning'', ''work'', ''personal'']
      \<and> due_date i \<in> set [Some ''tomorrow'', Some ''next week'', Some ''this weekend'', None]
      \<and> origin_type i \<in> set [''spontaneous'', ''planned'']
      \<and> tone i \<in> set [''positive'', ''neutral'', ''negative'']
      \<and> refinement_level i \<in> set [''initial'', ''detailed'', ''conceptual'']
      \<and> belief_level i \<in> set [''medium'', ''high'', ''low''])"

text \<open>
  The decimal numeral of a natural number, stated without \<open>show_nat\<close>: a non-empty string
  of the digits 0 to 9, without a leading zero unless it is "0", whose value read in base
  ten is the number.
\<close>

definition is_digit :: "char \<Rightarrow> bool" where
  "is_digit c = (48 \<le> (of_char c :: nat) \<and> (of_char c :: nat) \<le> 57)"

definition digit_value :: "char \<Rightarrow> nat" where
  "digit_value c = of_char c - 48"

definition read_nat :: "string \<Rightarrow> nat" where
  "read_nat s = foldl (\<lambda>a c. 10 * a + digit_value c) 0 s"

definition is_decimal :: "string \<Rightarrow> nat \<Rightarrow> bool" where
  "is_decimal s n =
     (s \<noteq> [] \<and> list_all is_digit s \<and> (s = ''0'' \<or> hd s \<noteq> CHR ''0'') \<and> read_nat s = n)"

text \<open>
  A well-formed result: every value of the tag frequency object is a number, and every
  idea record is well-formed.
\<close>

definition well_formed_tags :: "jsobject \<Rightarrow> bool" where
  "well_formed_tags tf =
     list_all (\<lambda>kv. case snd kv of JNumber n \<Rightarrow> True | JString s \<Rightarrow> False) tf"

definition well_formed_result :: "ProcessedResult \<Rightarrow> bool" where
  "well_formed_result r =
     (well_formed_tags (tagFrequencies r) \<and> list_all well_formed_idea (ideas r))"

text \<open>The three fields of an entry that the function reads.\<close>

definition fields_read :: "'a VoiceEntry_scheme \<Rightarrow> string \<times> string list \<times> number option" where
  "fields_read e = (transcript_user e, tags_user e, emotion_score_score e)"

section \<open>Lower-cased text and the regular expressions\<close>

lemma lower_code_minus: "lower_code n \<Longrightarrow> upper_code (n - 32)"
  unfolding lower_code_def upper_code_def by arith

lemma lower_code_ge: "lower_code n \<Longrightarrow> 32 \<le> n"
  unfolding lower_code_def by arith

lemma upper_code_plus: "upper_code n \<Longrightarrow> \<not> upper_code (n + 32) \<and> n + 32 < 256"
  unfolding upper_code_def by arith

lemma canon_code_inj:
  assumes "\<not> upper_code n" and "\<not> upper_code m"
    and "(if lower_code n then n - 32 else n) = (if lower_code m then m - 32 else m)"
  shows "n = m"
proof (cases "lower_code n")
  case n: True
  show ?thesis
  proof (cases "lower_code m")
    case True
    with n assms(3) lower_code_ge [of n] lower_code_ge [of m] show ?thesis by simp
  next
    case False
    with n assms(3) have "m = n - 32" by simp
    with lower_code_minus [OF n] assms(2) show ?thesis by simp
  qed
next
  case n: False
  show ?thesis
  proof (cases "lower_code m")
    case True
    with n assms(3) have "n = m - 32" by simp
    with lower_code_minus [OF True] assms(1) show ?thesis by simp
  next
    case False
    with n assms(3) show ?thesis by simp
  qed
qed

lemma of_char_canonicalize:
  "(of_char (canonicalize c) :: nat) =
     (if lower_code (of_char c) then of_char c - 32 else of_char c)"
proof -
  have "(of_char c :: nat) - 32 < 256"
    using nat_of_char_less_256 [of c] by arith
  then show ?thesis
    by (simp add: canonicalize_def)
qed

lemma canonicalize_inj:
  assumes "\<not> is_upper c" "\<not> is_upper d" "canonicalize c = canonicalize d"
  shows "c = d"
proof -
  have "(of_char (canonicalize c) :: nat) = of_char (canonicalize d)"
    using assms(3) by simp
  then have "(of_char c :: nat) = of_char d"
    using assms(1,2) unfolding of_char_canonicalize is_upper_def
    by (rule canon_code_inj [rotated 2])
  then show ?thesis by (simp only: of_char_eq_iff)
qed

lemma toLowerChar_not_upper: "\<not> is_upper (toLowerChar c)"
proof (cases "is_upper c")
  case True
  then show ?thesis
    using upper_code_plus [of "of_char c"]
    by (simp add: is_upper_def toLowerChar_def)
next
  case False
  then show ?thesis by (simp add: toLowerChar_def)
qed

lemma toLowerCase_not_upper: "c \<in> set (toLowerCase s) \<Longrightarrow> \<not> is_upper c"
  by (auto simp: toLowerCase_def toLowerChar_not_upper)

lemma toLowerCase_append: "toLowerCase (xs @ ys) = toLowerCase xs @ toLowerCase ys"
  by (simp add: toLowerCase_def)

lemma match_literal_prefix:
  assumes "\<forall>c\<in>set p. \<not> is_upper c" "\<forall>c\<in>set t. \<not> is_upper c"
  shows "match_literal p t = prefix p t"
  using assms
proof (induction p t rule: match_literal.induct)
  case (3 p ps c cs)
  then show ?case using canonicalize_inj [of p c] by auto
qed simp_all

lemma regex_test_sublist:
  assumes "\<forall>p\<in>set alts. \<forall>c\<in>set p. \<not> is_upper c" "\<forall>c\<in>set t. \<not> is_upper c"
  shows "regex_test alts t = (\<exists>p\<in>set alts. sublist p t)"
  using assms(2)
proof (induction t)
  case Nil
  have "\<And>p. match_literal p [] = (p = [])" by (case_tac p) simp_all
  then show ?case by (auto simp: list_ex_iff)
next
  case (Cons c cs)
  have "\<And>p. p \<in> set alts \<Longrightarrow> match_literal p (c # cs) = prefix p (c # cs)"
    using assms(1) Cons.prems by (intro match_literal_prefix) auto
  then show ?case using Cons by (auto simp: list_ex_iff sublist_Cons_right)
qed

lemma regex_test_lower:
  assumes "lower_words alts"
  shows "regex_test alts (toLowerCase s) = contains_any alts (toLowerCase s)"
  unfolding contains_any_def list_ex_iff
  using assms
  by (intro regex_test_sublist) (auto simp: lower_words_def list_all_iff toLowerCase_not_upper)

lemma contains_ignoring_case_iff:
  "contains_ignoring_case w text \<longleftrightarrow> (\<exists>s. sublist s text \<and> toLowerCase s = toLowerCase w)"
proof
  assume "contains_ignoring_case w text"
  then obtain ps ss where "map toLowerChar text = ps @ toLowerCase w @ ss"
    by (auto simp: contains_ignoring_case_def sublist_def toLowerCase_def)
  then obtain a b c where "text = a @ b @ c" "map toLowerChar b = toLowerCase w"
    by (auto simp: map_eq_append_conv append_eq_map_conv)
  then show "\<exists>s. sublist s text \<and> toLowerCase s = toLowerCase w"
    by (auto simp: toLowerCase_def)
next
  assume "\<exists>s. sublist s text \<and> toLowerCase s = toLowerCase w"
  then obtain s ps ss where "text = ps @ s @ ss" "toLowerCase s = toLowerCase w"
    by (auto simp: sublist_def)
  then have "toLowerCase text = toLowerCase ps @ toLowerCase w @ toLowerCase ss"
    by (simp add: toLowerCase_append)
  then show "contains_ignoring_case w text"
    unfolding contains_ignoring_case_def sublist_def by blast
qed

section \<open>The loop\<close>

lemma count_tags_append: "count_tags tf (xs @ ys) = count_tags (count_tags tf xs) ys"
  by (simp add: count_tags_def)

lemma foldl_process_entry:
  "foldl process_entry (tf, acc) es =
     (count_tags tf (concat (map tags_user es)), acc @ map make_idea (filter is_idea es))"
proof (induction es arbitrary: tf acc)
  case Nil
  show ?case by (simp add: count_tags_def)
next
  case (Cons e es)
  have step: "process_entry (tf, acc) e =
      (count_tags tf (tags_user e), if is_idea e then acc @ [make_idea e] else acc)"
    by (simp add: process_entry_def Let_def)
  have "foldl process_entry (tf, acc) (e # es) = foldl process_entry (process_entry (tf, acc) e) es"
    by simp
  also have "\<dots> = (count_tags (count_tags tf (tags_user e)) (concat (map tags_user es)),
      (if is_idea e then acc @ [make_idea e] else acc) @ map make_idea (filter is_idea es))"
    unfolding step by (rule Cons.IH)
  finally show ?case
    by (simp add: count_tags_append)
qed

lemma ideas_processEntries: "ideas (processEntries es) = map make_idea (filter is_idea es)"
  by (simp add: processEntries_def foldl_process_entry Let_def)

lemma tagFrequencies_processEntries:
  "tagFrequencies (processEntries es) = count_tags [] (concat (map tags_user es))"
  by (simp add: processEntries_def foldl_process_entry Let_def)

lemma summary_processEntries:
  "summary (processEntries es) =
     ''Analysis of '' @ show_nat (length es) @ '' entries found ''
       @ show_nat (length (ideas (processEntries es))) @ '' potential ideas''"
  by (simp add: processEntries_def Let_def)


section \<open>The source rules agree with the words of the specification\<close>

lemma is_idea_spec: "is_idea e = spec_is_idea (toLowerCase (transcript_user e))"
proof -
  have v: "lower_words [''build'', ''create'', ''start'', ''try'', ''make'', ''develop'',
                        ''design'', ''launch'']"
    by code_simp
  have p: "lower_words [''just thought of'', ''what if'', ''idea for'', ''thinking about'',
                        ''occurred to me'', ''imagine if'', ''how about'']"
    by code_simp
  have f: "lower_words [''going to'', ''plan to'', ''want to'', ''would like to'', ''intend to'']"
    by code_simp
  show ?thesis
    unfolding is_idea_def Let_def hasIdeaVerbs_def hasIdeaPhrases_def hasFutureIntent_def
      spec_is_idea_def
    by (simp only: regex_test_lower [OF v] regex_test_lower [OF p] regex_test_lower [OF f])
qed

lemma category_of_spec: "category_of (toLowerCase t) = spec_category (toLowerCase t)"
proof -
  have h: "lower_words [''health'', ''exercise'', ''workout'', ''diet'']"
    by code_simp
  have l: "lower_words [''learn'', ''study'', ''course'', ''read'']"
    by code_simp
  have w: "lower_words [''work'', ''job'', ''career'', ''business'']"
    by code_simp
  have p: "lower_words [''personal'', ''life'', ''relationship'']"
    by code_simp
  show ?thesis
    unfolding category_of_def spec_category_def
    by (simp only: regex_test_lower [OF h] regex_test_lower [OF l] regex_test_lower [OF w]
        regex_test_lower [OF p])
qed

lemma origin_type_of_spec: "origin_type_of (toLowerCase t) = spec_origin_type (toLowerCase t)"
proof -
  have p: "lower_words [''just thought of'', ''what if'', ''idea for'', ''thinking about'',
                        ''occurred to me'', ''imagine if'', ''how about'']"
    by code_simp
  show ?thesis
    unfolding origin_type_of_def hasIdeaPhrases_def spec_origin_type_def
    by (simp only: regex_test_lower [OF p])
qed

lemma refinement_level_of_spec:
  "refinement_level_of (toLowerCase t) = spec_refinement_level (toLowerCase t)"
proof -
  have d: "lower_words [''detailed plan'', ''steps to'', ''process for'']"
    by code_simp
  have c: "lower_words [''thinking about'', ''considering'']"
    by code_simp
  show ?thesis
    unfolding refinement_level_of_def spec_refinement_level_def
    by (simp only: regex_test_lower [OF d] regex_test_lower [OF c])
qed

lemma tone_of_spec: "tone_of s = spec_tone s"
proof (cases s)
  case None
  then show ?thesis by (simp add: tone_of_def spec_tone_def)
next
  case (Some x)
  then show ?thesis by (cases x) (simp_all add: tone_of_def spec_tone_def)
qed

lemma make_idea_fields:
  "task_text (make_idea e) = transcript_user e"
  "category (make_idea e) = spec_category (toLowerCase (transcript_user e))"
  "origin_type (make_idea e) = spec_origin_type (toLowerCase (transcript_user e))"
  "tone (make_idea e) = spec_tone (emotion_score_score e)"
  "refinement_level (make_idea e) = spec_refinement_level (toLowerCase (transcript_user e))"
  by (simp_all add: make_idea_def Let_def category_of_spec origin_type_of_spec tone_of_spec
      refinement_level_of_spec)

lemma status_of_spec: "status_of (toLowerCase t) = spec_status (toLowerCase t)"
proof -
  have p: "lower_words [''already started'', ''in progress'', ''working on'']"
    by code_simp
  have c: "lower_words [''finished'', ''completed'', ''done'']"
    by code_simp
  show ?thesis
    unfolding status_of_def spec_status_def
    by (simp only: regex_test_lower [OF p] regex_test_lower [OF c])
qed

lemma due_date_of_spec: "due_date_of (toLowerCase t) = spec_due_date (toLowerCase t)"
proof -
  have a: "lower_words [''tomorrow'']"
    by code_simp
  have b: "lower_words [''next week'']"
    by code_simp
  have c: "lower_words [''this weekend'']"
    by code_simp
  show ?thesis
    unfolding due_date_of_def spec_due_date_def
    by (simp only: regex_test_lower [OF a] regex_test_lower [OF b] regex_test_lower [OF c])
qed

lemma belief_level_of_spec: "belief_level_of (toLowerCase t) = spec_belief_level (toLowerCase t)"
proof -
  have h: "lower_words [''definitely'', ''absolutely'', ''must'', ''will'']"
    by code_simp
  have l: "lower_words [''maybe'', ''perhaps'', ''might'', ''could'']"
    by code_simp
  show ?thesis
    unfolding belief_level_of_def spec_belief_level_def
    by (simp only: regex_test_lower [OF h] regex_test_lower [OF l])
qed

lemma make_idea_spec:
  "make_idea e =
     \<lparr> task_text = transcript_user e,
       status = spec_status (toLowerCase (transcript_user e)),
       category = spec_category (toLowerCase (transcript_user e)),
       due_date = spec_due_date (toLowerCase (transcript_user e)),
       origin_type = spec_origin_type (toLowerCase (transcript_user e)),
       tone = spec_tone (emotion_score_score e),
       refinement_level = spec_refinement_level (toLowerCase (transcript_user e)),
       belief_level = spec_belief_level (toLowerCase (transcript_user e)) \<rparr>"
  by (simp add: make_idea_def Let_def category_of_spec origin_type_of_spec tone_of_spec
      refinement_level_of_spec status_of_spec due_date_of_spec belief_level_of_spec)

section \<open>Which entries become ideas\<close>

text \<open>
  C1: an entry contributes an idea record exactly when one of the three triggers of the
  specification fires on its lower-cased transcript (\<open>spec_is_idea\<close>): the idea list is
  the list of the records of those entries, and an entry on which no trigger fires leaves
  no record.
\<close>

theorem idea_iff_trigger:
  "ideas (processEntries es) =
     map make_idea (filter (\<lambda>e. spec_is_idea (toLowerCase (transcript_user e))) es)
   \<and> (\<forall>e. is_idea e = spec_is_idea (toLowerCase (transcript_user e)))"
proof -
  have "is_idea = (\<lambda>e :: 'a VoiceEntry_scheme. spec_is_idea (toLowerCase (transcript_user e)))"
    by (rule ext) (rule is_idea_spec)
  then show ?thesis
    by (simp add: ideas_processEntries is_idea_spec)
qed

lemma trigger_examples:
  "spec_is_idea (toLowerCase ''Let us BUILD it'')"
  "\<not> spec_is_idea (toLowerCase ''Nothing today'')"
  "spec_is_idea (toLowerCase ''What if'')"
  "spec_is_idea (toLowerCase ''I plan to rest'')"
  by code_simp+

theorem idea_iff_trigger_witness:
  "map task_text (ideas (processEntries
      [\<lparr> entry_id = ''a'', user_id = ''u'', transcript_user = ''Let us BUILD it'',
          tags_model = [], tags_user = [], emotion_score_score = None \<rparr>,
       \<lparr> entry_id = ''b'', user_id = ''u'', transcript_user = ''Nothing today'',
          tags_model = [], tags_user = [], emotion_score_score = None \<rparr>,
       \<lparr> entry_id = ''c'', user_id = ''u'', transcript_user = ''What if'',
          tags_model = [], tags_user = [], emotion_score_score = None \<rparr>,
       \<lparr> entry_id = ''d'', user_id = ''u'', transcript_user = ''I plan to rest'',
          tags_model = [], tags_user = [], emotion_score_score = None \<rparr>]))
   = [''Let us BUILD it'', ''What if'', ''I plan to rest'']"
  unfolding idea_iff_trigger [THEN conjunct1]
  by (simp add: trigger_examples make_idea_fields)

section \<open>The attributes of an idea\<close>

lemma category_example:
  "spec_is_idea (toLowerCase ''I want to learn how to code for my job'')"
  "spec_category (toLowerCase ''I want to learn how to code for my job'') = ''learning''"
  "contains_any [''work'', ''job'', ''career'', ''business'']
     (toLowerCase ''I want to learn how to code for my job'')"
  by code_simp+

text \<open>
  C4: the category of an idea is decided by the keyword sets in the order health, learning,
  work, personal, the first set with a keyword in the lower-cased transcript winning, and
  is "general" when none has one (\<open>spec_category\<close>). The transcript "I want to learn how
  to code for my job" has the category "learning" although it contains the work keyword
  "job".
\<close>

theorem category_first_match:
  "map category (ideas (processEntries es)) =
     map (\<lambda>e. spec_category (toLowerCase (transcript_user e))) (filter is_idea es)
   \<and> map category (ideas (processEntries
        [\<lparr> entry_id = i, user_id = u,
            transcript_user = ''I want to learn how to code for my job'',
            tags_model = m, tags_user = ts, emotion_score_score = s \<rparr>])) = [''learning'']
   \<and> contains_any [''work'', ''job'', ''career'', ''business'']
        (toLowerCase ''I want to learn how to code for my job'')"
  by (simp add: ideas_processEntries make_idea_fields is_idea_spec category_example)

theorem category_first_match_witness:
  "map category (ideas (processEntries
      [\<lparr> entry_id = ''a'', user_id = ''u'', transcript_user = ''Start a diet, read for work'',
          tags_model = [], tags_user = [], emotion_score_score = None \<rparr>,
       \<lparr> entry_id = ''b'', user_id = ''u'', transcript_user = ''Try a course on life'',
          tags_model = [], tags_user = [], emotion_score_score = None \<rparr>,
       \<lparr> entry_id = ''c'', user_id = ''u'', transcript_user = ''Make my job personal'',
          tags_model = [], tags_user = [], emotion_score_score = None \<rparr>,
       \<lparr> entry_id = ''d'', user_id = ''u'', transcript_user = ''Design a relationship'',
          tags_model = [], tags_user = [], emotion_score_score = None \<rparr>,
       \<lparr> entry_id = ''e'', user_id = ''u'', transcript_user = ''Launch it'',
          tags_model = [], tags_user = [], emotion_score_score = None \<rparr>]))
   = [''health'', ''learning'', ''work'', ''personal'', ''general'']"
proof -
  have i: "spec_is_idea (toLowerCase ''Start a diet, read for work'')"
    "spec_is_idea (toLowerCase ''Try a course on life'')"
    "spec_is_idea (toLowerCase ''Make my job personal'')"
    "spec_is_idea (toLowerCase ''Design a relationship'')"
    "spec_is_idea (toLowerCase ''Launch it'')"
    by code_simp+
  have c: "spec_category (toLowerCase ''Start a diet, read for work'') = ''health''"
    "spec_category (toLowerCase ''Try a course on life'') = ''learning''"
    "spec_category (toLowerCase ''Make my job personal'') = ''work''"
    "spec_category (toLowerCase ''Design a relationship'') = ''personal''"
    "spec_category (toLowerCase ''Launch it'') = ''general''"
    by code_simp+
  show ?thesis
    unfolding category_first_match [THEN conjunct1]
    by (simp add: is_idea_spec i c)
qed

lemma origin_examples:
  "spec_is_idea (toLowerCase ''I want to build a new app'')"
  "spec_origin_type (toLowerCase ''I want to build a new app'') = ''planned''"
  "spec_is_idea (toLowerCase ''I just thought of a great solution'')"
  "spec_origin_type (toLowerCase ''I just thought of a great solution'') = ''spontaneous''"
  by code_simp+

text \<open>
  C5: the origin type of an idea is "spontaneous" exactly when its lower-cased transcript
  contains one of the phrases of the phrase trigger, and "planned" otherwise, whatever the
  other two triggers do (\<open>spec_origin_type\<close>). "I want to build a new app" is planned,
  "I just thought of a great solution" is spontaneous.
\<close>

theorem origin_type_phrase_only:
  "map origin_type (ideas (processEntries es)) =
     map (\<lambda>e. spec_origin_type (toLowerCase (transcript_user e))) (filter is_idea es)
   \<and> map origin_type (ideas (processEntries
        [\<lparr> entry_id = i, user_id = u, transcript_user = ''I want to build a new app'',
            tags_model = m, tags_user = ts, emotion_score_score = s \<rparr>])) = [''planned'']
   \<and> map origin_type (ideas (processEntries
        [\<lparr> entry_id = i, user_id = u, transcript_user = ''I just thought of a great solution'',
            tags_model = m, tags_user = ts, emotion_score_score = s \<rparr>])) = [''spontaneous'']"
  by (simp add: ideas_processEntries make_idea_fields is_idea_spec origin_examples)

theorem origin_type_phrase_only_witness:
  "map origin_type (ideas (processEntries
      [\<lparr> entry_id = ''a'', user_id = ''u'', transcript_user = ''What if I plan to build it'',
          tags_model = [], tags_user = [], emotion_score_score = None \<rparr>,
       \<lparr> entry_id = ''b'', user_id = ''u'', transcript_user = ''I plan to build it'',
          tags_model = [], tags_user = [], emotion_score_score = None \<rparr>]))
   = [''spontaneous'', ''planned'']"
proof -
  have i: "spec_is_idea (toLowerCase ''What if I plan to build it'')"
    "spec_is_idea (toLowerCase ''I plan to build it'')"
    by code_simp+
  have c: "spec_origin_type (toLowerCase ''What if I plan to build it'') = ''spontaneous''"
    "spec_origin_type (toLowerCase ''I plan to build it'') = ''planned''"
    by code_simp+
  show ?thesis
    unfolding origin_type_phrase_only [THEN conjunct1]
    by (simp add: is_idea_spec i c)
qed

text \<open>
  C6: the tone of an idea is "positive" when the emotion score is present and greater than
  0.3, "negative" when it is present and less than -0.1, and "neutral" in every other case
  (\<open>spec_tone\<close>): at the score 0.3, at the score -0.1 and without a score.
\<close>

theorem tone_thresholds:
  "map tone (ideas (processEntries es)) =
     map (\<lambda>e. spec_tone (emotion_score_score e)) (filter is_idea es)
   \<and> spec_tone (Some (Finite (3 / 10))) = ''neutral''
   \<and> spec_tone (Some (Finite (- (1 / 10)))) = ''neutral''
   \<and> spec_tone None = ''neutral''"
  by (simp add: ideas_processEntries make_idea_fields spec_tone_def)

theorem tone_thresholds_witness:
  "map tone (ideas (processEntries
      [\<lparr> entry_id = ''a'', user_id = ''u'', transcript_user = ''try'',
          tags_model = [], tags_user = [], emotion_score_score = Some (Finite (3 / 10)) \<rparr>,
       \<lparr> entry_id = ''b'', user_id = ''u'', transcript_user = ''try'',
          tags_model = [], tags_user = [], emotion_score_score = Some (Finite (4 / 10)) \<rparr>,
       \<lparr> entry_id = ''c'', user_id = ''u'', transcript_user = ''try'',
          tags_model = [], tags_user = [], emotion_score_score = Some (Finite (- (1 / 10))) \<rparr>,
       \<lparr> entry_id = ''d'', user_id = ''u'', transcript_user = ''try'',
          tags_model = [], tags_user = [], emotion_score_score = Some (Finite (- (2 / 10))) \<rparr>,
       \<lparr> entry_id = ''e'', user_id = ''u'', transcript_user = ''try'',
          tags_model = [], tags_user = [], emotion_score_score = None \<rparr>,
       \<lparr> entry_id = ''f'', user_id = ''u'', transcript_user = ''try'',
          tags_model = [], tags_user = [], emotion_score_score = Some NaN \<rparr>]))
   = [''neutral'', ''positive'', ''neutral'', ''negative'', ''neutral'', ''neutral'']"
proof -
  have i: "spec_is_idea (toLowerCase ''try'')"
    by code_simp
  show ?thesis
    unfolding tone_thresholds [THEN conjunct1]
    by (simp add: is_idea_spec i spec_tone_def)
qed

section \<open>The summary string\<close>

lemma show_nat_0: "show_nat 0 = ''0''"
  by code_simp

lemma show_nat_examples:
  "show_nat 7 = ''7''"
  "show_nat 20 = ''20''"
  "show_nat 1203 = ''1203''"
  by code_simp+

lemma digit_char_props:
  assumes "d < 10"
  shows "is_digit (digit_char d)" and "digit_value (digit_char d) = d"
    and "(digit_char d = CHR ''0'') = (d = 0)"
proof -
  have c: "(of_char (digit_char d) :: nat) = 48 + d"
    using assms by (simp add: digit_char_def)
  show "is_digit (digit_char d)"
    using assms by (simp add: is_digit_def c)
  show "digit_value (digit_char d) = d"
    by (simp add: digit_value_def c)
  have "(of_char (digit_char d) :: nat) = of_char CHR ''0'' \<longleftrightarrow> d = 0"
    unfolding c by simp
  then show "(digit_char d = CHR ''0'') = (d = 0)"
    by (simp only: of_char_eq_iff)
qed

lemma read_nat_snoc: "read_nat (s @ [c]) = 10 * read_nat s + digit_value c"
  by (simp add: read_nat_def)

lemma show_nat_not_Nil: "show_nat n \<noteq> []"
  by (subst show_nat.simps) simp

lemma list_all_is_digit_show_nat: "list_all is_digit (show_nat n)"
proof (induction n rule: show_nat.induct)
  case (1 n)
  show ?case
  proof (cases "n < 10")
    case True
    then show ?thesis
      by (subst show_nat.simps) (simp add: digit_char_props)
  next
    case False
    with "1.IH" show ?thesis
      by (subst show_nat.simps) (simp add: digit_char_props)
  qed
qed

lemma read_nat_show_nat: "read_nat (show_nat n) = n"
proof (induction n rule: show_nat.induct)
  case (1 n)
  show ?case
  proof (cases "n < 10")
    case True
    then show ?thesis
      by (subst show_nat.simps) (simp add: read_nat_def digit_char_props)
  next
    case False
    with "1.IH" show ?thesis
      by (subst show_nat.simps) (simp add: read_nat_snoc digit_char_props)
  qed
qed

lemma read_nat_zero: "read_nat ''0'' = 0"
  by (simp add: read_nat_def digit_value_def)

lemma show_nat_eq_zero: "show_nat n = ''0'' \<Longrightarrow> n = 0"
  using read_nat_show_nat [of n] by (simp add: read_nat_zero)

lemma show_nat_no_leading_zero: "show_nat n = ''0'' \<or> hd (show_nat n) \<noteq> CHR ''0''"
proof (induction n rule: show_nat.induct)
  case (1 n)
  show ?case
  proof (cases "n < 10")
    case True
    then show ?thesis
      by (subst (1 2) show_nat.simps) (auto simp: digit_char_props digit_char_def)
  next
    case False
    then have "n div 10 \<noteq> 0" by simp
    then have "show_nat (n div 10) \<noteq> ''0''"
      by (rule contrapos_nn) (rule show_nat_eq_zero)
    with "1.IH" False have "hd (show_nat (n div 10)) \<noteq> CHR ''0''"
      by simp
    with False show ?thesis
      by (subst (1 2) show_nat.simps) (simp add: show_nat_not_Nil)
  qed
qed

lemma is_decimal_show_nat: "is_decimal (show_nat n) n"
  unfolding is_decimal_def
  using show_nat_not_Nil list_all_is_digit_show_nat show_nat_no_leading_zero read_nat_show_nat
  by blast


lemma is_digit_props:
  assumes "is_digit c"
  shows "digit_value c < 10" and "digit_char (digit_value c) = c"
    and "(digit_value c = 0) = (c = CHR ''0'')"
proof -
  from assms have r: "48 \<le> (of_char c :: nat)" "(of_char c :: nat) \<le> 57"
    by (simp_all add: is_digit_def)
  then show d: "digit_value c < 10"
    by (simp add: digit_value_def)
  have "(of_char (digit_char (digit_value c)) :: nat) = of_char c"
    using r by (simp add: digit_char_def digit_value_def)
  then show e: "digit_char (digit_value c) = c"
    by (simp only: of_char_eq_iff)
  show "(digit_value c = 0) = (c = CHR ''0'')"
    using digit_char_props(3) [OF d] unfolding e by simp
qed

lemma foldl_read_ge: "a \<le> foldl (\<lambda>a c. 10 * a + digit_value c) a s"
proof (induction s arbitrary: a)
  case Nil
  show ?case by simp
next
  case (Cons c s)
  have "a \<le> 10 * a + digit_value c" by simp
  also have "\<dots> \<le> foldl (\<lambda>a c. 10 * a + digit_value c) (10 * a + digit_value c) s"
    by (rule Cons.IH)
  finally show ?case by simp
qed

lemma read_nat_pos:
  assumes "s \<noteq> []" "list_all is_digit s" "hd s \<noteq> CHR ''0''"
  shows "0 < read_nat s"
proof -
  from assms(1) obtain c cs where s: "s = c # cs" by (cases s) auto
  with assms have "is_digit c" "c \<noteq> CHR ''0''" by simp_all
  then have "0 < digit_value c"
    using is_digit_props(3) [of c] by simp
  also have "digit_value c \<le> read_nat s"
    unfolding s read_nat_def using foldl_read_ge [of "digit_value c" cs] by simp
  finally show ?thesis .
qed

lemma is_decimal_unique: "is_decimal s n \<Longrightarrow> s = show_nat n"
proof (induction s arbitrary: n rule: rev_induct)
  case Nil
  then show ?case by (simp add: is_decimal_def)
next
  case (snoc c xs)
  from snoc.prems have dig: "list_all is_digit xs" "is_digit c"
    and n: "n = 10 * read_nat xs + digit_value c"
    and lead: "xs @ [c] = ''0'' \<or> hd (xs @ [c]) \<noteq> CHR ''0''"
    by (simp_all add: is_decimal_def read_nat_snoc)
  note c = is_digit_props [OF dig(2)]
  show ?case
  proof (cases "xs = []")
    case True
    with n c show ?thesis
      by (subst show_nat.simps) (simp add: read_nat_def)
  next
    case False
    with lead have h: "hd xs \<noteq> CHR ''0''" by simp
    with False dig(1) have "is_decimal xs (read_nat xs)"
      by (simp add: is_decimal_def)
    then have xs: "xs = show_nat (read_nat xs)" by (rule snoc.IH)
    have "0 < read_nat xs" using False dig(1) h by (rule read_nat_pos)
    with n c(1) have "\<not> n < 10" "n div 10 = read_nat xs" "n mod 10 = digit_value c"
      by simp_all
    then have "show_nat n = show_nat (read_nat xs) @ [digit_char (digit_value c)]"
      by (subst show_nat.simps) simp
    with xs c(2) show ?thesis by simp
  qed
qed

text \<open>
  C3: for every input, the empty one included, the summary is "Analysis of N entries found
  M potential ideas", where N is the decimal numeral of the number of entries and M the
  decimal numeral of the number of idea records (\<open>is_decimal\<close>, which \<open>show_nat\<close>
  satisfies and which only one string satisfies for a number); the empty input gives an
  empty tag object, an empty idea list and the summary "Analysis of 0 entries found 0
  potential ideas", which contains "0 potential ideas".
\<close>

theorem summary_format:
  "summary (processEntries es) =
     ''Analysis of '' @ show_nat (length es) @ '' entries found ''
       @ show_nat (length (ideas (processEntries es))) @ '' potential ideas''
   \<and> is_decimal (show_nat (length es)) (length es)
   \<and> is_decimal (show_nat (length (ideas (processEntries es))))
        (length (ideas (processEntries es)))
   \<and> tagFrequencies (processEntries []) = []
   \<and> ideas (processEntries []) = []
   \<and> summary (processEntries []) = ''Analysis of 0 entries found 0 potential ideas''
   \<and> sublist ''0 potential ideas'' (summary (processEntries []))"
proof -
  have s0: "summary (processEntries []) = ''Analysis of 0 entries found 0 potential ideas''"
    by (simp add: summary_processEntries ideas_processEntries show_nat_0)
  have "''Analysis of 0 entries found 0 potential ideas''
          = ''Analysis of 0 entries found '' @ ''0 potential ideas'' @ []"
    by simp
  then have "sublist ''0 potential ideas'' (summary (processEntries []))"
    unfolding s0 sublist_def by blast
  then show ?thesis
    using s0 summary_processEntries [of es]
    by (simp add: ideas_processEntries tagFrequencies_processEntries count_tags_def
        is_decimal_show_nat)
qed

theorem summary_format_witness:
  "summary (processEntries (replicate 12
      \<lparr> entry_id = ''a'', user_id = ''u'', transcript_user = ''try'', tags_model = [],
        tags_user = [], emotion_score_score = None \<rparr>))
     = ''Analysis of 12 entries found 12 potential ideas''
   \<and> is_decimal ''12'' 12
   \<and> summary (processEntries
       [\<lparr> entry_id = ''a'', user_id = ''u'', transcript_user = ''try'', tags_model = [],
          tags_user = [], emotion_score_score = None \<rparr>,
        \<lparr> entry_id = ''b'', user_id = ''u'', transcript_user = ''none'', tags_model = [],
          tags_user = [], emotion_score_score = None \<rparr>])
     = ''Analysis of 2 entries found 1 potential ideas''"
proof -
  let ?e = "\<lparr> entry_id = ''a'', user_id = ''u'', transcript_user = ''try'', tags_model = [],
        tags_user = [], emotion_score_score = None \<rparr>"
  let ?f = "\<lparr> entry_id = ''b'', user_id = ''u'', transcript_user = ''none'', tags_model = [],
          tags_user = [], emotion_score_score = None \<rparr>"
  have i: "is_idea ?e" "\<not> is_idea ?f"
    unfolding is_idea_spec by (simp, code_simp)+
  have l: "length (ideas (processEntries (replicate 12 ?e))) = 12"
    "length (ideas (processEntries [?e, ?f])) = Suc 0"
    unfolding ideas_processEntries using i by simp_all
  have d: "show_nat 12 = ''12''" "show_nat (Suc (Suc 0)) = ''2''" "show_nat (Suc 0) = ''1''"
    by code_simp+
  have a: "summary (processEntries (replicate 12 ?e))
      = ''Analysis of 12 entries found 12 potential ideas''"
    using summary_format [of "replicate 12 ?e", THEN conjunct1]
    unfolding l by (simp add: d)
  have b: "is_decimal ''12'' 12"
    using summary_format [of "replicate 12 ?e", THEN conjunct2, THEN conjunct1]
    by (simp add: d)
  have c: "summary (processEntries [?e, ?f]) = ''Analysis of 2 entries found 1 potential ideas''"
    using summary_format [of "[?e, ?f]", THEN conjunct1]
    unfolding l by (simp add: d)
  show ?thesis
    by (intro conjI) (rule a b c)+
qed

section \<open>The idea list\<close>


section \<open>The tag counts\<close>

text \<open>
  A tag that does not name a property of \<open>Object.prototype\<close> is counted: it is a key of
  the object exactly when it occurs in some tag list, and its value is the number of its
  occurrences in all the tag lists.
\<close>

lemma not_inherited_proto: "map_of object_prototype k = None \<Longrightarrow> k \<noteq> ''__proto__''"
  by (auto simp: object_prototype_def)

lemma map_of_count_tag_other:
  assumes "t \<noteq> k"
  shows "map_of (count_tag tf t) k = map_of tf k"
  using assms by (simp add: count_tag_def set_property_def update_conv')

lemma map_of_count_tag_same:
  assumes "map_of object_prototype k = None"
  shows "map_of (count_tag tf k) k =
     Some (or_zero_plus_one (case map_of tf k of Some v \<Rightarrow> Own v | None \<Rightarrow> Undefined))"
  using assms not_inherited_proto [OF assms]
  by (simp add: count_tag_def set_property_def update_conv' get_property_def split: option.split)

lemma count_tags_regular_general:
  assumes "map_of object_prototype k = None"
    and "map_of tf k = (if n = 0 then None else Some (JNumber n))"
  shows "map_of (count_tags tf ts) k =
     (if n + count_list ts k = 0 then None else Some (JNumber (n + count_list ts k)))"
  using assms(2)
proof (induction ts arbitrary: tf n)
  case Nil
  then show ?case by (simp add: count_tags_def)
next
  case (Cons t ts)
  show ?case
  proof (cases "t = k")
    case True
    have "map_of (count_tag tf k) k = (if n + 1 = 0 then None else Some (JNumber (n + 1)))"
      using Cons.prems by (simp add: map_of_count_tag_same [OF assms(1)])
    from Cons.IH [OF this] True show ?thesis
      by (simp add: count_tags_def)
  next
    case False
    have "map_of (count_tag tf t) k = (if n = 0 then None else Some (JNumber n))"
      using Cons.prems False by (simp add: map_of_count_tag_other)
    from Cons.IH [OF this] False show ?thesis
      by (simp add: count_tags_def)
  qed
qed

lemma tag_counts_regular:
  assumes "map_of object_prototype k = None"
  shows "map_of (tagFrequencies (processEntries es)) k =
     (if k \<in> set (concat (map tags_user es))
      then Some (JNumber (count_list (concat (map tags_user es)) k)) else None)"
  using count_tags_regular_general [OF assms, of "[]" 0 "concat (map tags_user es)"]
  by (simp add: tagFrequencies_processEntries count_list_0_iff)

lemma tag_counts_example:
  "tagFrequencies (processEntries
      [\<lparr> entry_id = ''a'', user_id = ''u'', transcript_user = ''note'', tags_model = [],
          tags_user = [''work'', ''important''], emotion_score_score = None \<rparr>,
       \<lparr> entry_id = ''b'', user_id = ''u'', transcript_user = ''note'', tags_model = [],
          tags_user = [''personal'', ''work''], emotion_score_score = None \<rparr>])
   = [(''work'', JNumber 2), (''important'', JNumber 1), (''personal'', JNumber 1)]"
  by (simp add: tagFrequencies_processEntries count_tags_def count_tag_def set_property_def
      get_property_def object_prototype_def)

text \<open>
  C2 fails on the code for a tag that names a property of \<open>Object.prototype\<close>: for the
  tag list ["constructor", "work"] the object does not map "constructor" to the count 1.
  \<open>tagFrequencies["constructor"]\<close> reads the inherited function \<open>Object\<close>, which is
  truthy, and \<open>+ 1\<close> appends "1" to its string form; the tag "work" is counted.
\<close>

theorem tag_named_constructor:
  "tagFrequencies (processEntries
      [\<lparr> entry_id = ''a'', user_id = ''u'', transcript_user = ''note'', tags_model = [],
          tags_user = [''constructor'', ''work''], emotion_score_score = None \<rparr>])
   = [(''constructor'', JString ''function Object() { [native code] }1''),
      (''work'', JNumber 1)]"
  by (simp add: tagFrequencies_processEntries count_tags_def count_tag_def set_property_def
      get_property_def object_prototype_def native_function_def)

section \<open>Totality and defaults\<close>

lemma well_formed_make_idea: "well_formed_idea (make_idea e)"
  unfolding well_formed_idea_def
proof (intro conjI)
  show "status (make_idea e) \<in> set [''new'', ''in progress'', ''completed'']"
    by (simp add: make_idea_def Let_def status_of_def)
  show "category (make_idea e) \<in> set [''general'', ''health'', ''learning'', ''work'', ''personal'']"
    by (simp add: make_idea_def Let_def category_of_def)
  show "due_date (make_idea e)
          \<in> set [Some ''tomorrow'', Some ''next week'', Some ''this weekend'', None]"
    by (simp add: make_idea_def Let_def due_date_of_def)
  show "origin_type (make_idea e) \<in> set [''spontaneous'', ''planned'']"
    by (simp add: make_idea_def Let_def origin_type_of_def)
  show "tone (make_idea e) \<in> set [''positive'', ''neutral'', ''negative'']"
    by (simp add: make_idea_def Let_def tone_of_def split: option.split)
  show "refinement_level (make_idea e) \<in> set [''initial'', ''detailed'', ''conceptual'']"
    by (simp add: make_idea_def Let_def refinement_level_of_def)
  show "belief_level (make_idea e) \<in> set [''medium'', ''high'', ''low'']"
    by (simp add: make_idea_def Let_def belief_level_of_def)
qed

lemma defaults_example:
  "spec_is_idea (toLowerCase ''try'')"
  "spec_status (toLowerCase ''try'') = ''new''"
  "spec_category (toLowerCase ''try'') = ''general''"
  "spec_due_date (toLowerCase ''try'') = None"
  "spec_origin_type (toLowerCase ''try'') = ''planned''"
  "spec_refinement_level (toLowerCase ''try'') = ''initial''"
  "spec_belief_level (toLowerCase ''try'') = ''medium''"
  by code_simp+

text \<open>
  What holds of every result: each idea record has its attributes among the values of the
  data model. The empty input gives the empty result; entries with empty tag lists leave
  the tag object empty; an entry without an emotion score has the tone "neutral"; and an
  entry whose transcript matches no attribute rule ("try") gets every default: "new",
  "general", no due date, "planned", "neutral", "initial" and "medium".
\<close>

lemma idea_records_well_formed_with_defaults:
  "list_all well_formed_idea (ideas (processEntries es))
   \<and> processEntries [] =
       \<lparr> summary = ''Analysis of 0 entries found 0 potential ideas'', tagFrequencies = [],
         ideas = [] \<rparr>
   \<and> tagFrequencies (processEntries (map (\<lambda>e. e\<lparr>tags_user := []\<rparr>) es)) = []
   \<and> list_all (\<lambda>i. tone i = ''neutral'')
        (ideas (processEntries (map (\<lambda>e. e\<lparr>emotion_score_score := None\<rparr>) es)))
   \<and> processEntries
        [\<lparr> entry_id = i, user_id = u, transcript_user = ''try'', tags_model = m,
            tags_user = [], emotion_score_score = None \<rparr>] =
       \<lparr> summary = ''Analysis of 1 entries found 1 potential ideas'', tagFrequencies = [],
         ideas = [\<lparr> task_text = ''try'', status = ''new'', category = ''general'',
                    due_date = None, origin_type = ''planned'', tone = ''neutral'',
                    refinement_level = ''initial'', belief_level = ''medium'' \<rparr>] \<rparr>"
proof (intro conjI)
  show "list_all well_formed_idea (ideas (processEntries es))"
    by (simp add: ideas_processEntries list_all_iff well_formed_make_idea)
  show "processEntries [] =
       \<lparr> summary = ''Analysis of 0 entries found 0 potential ideas'', tagFrequencies = [],
         ideas = [] \<rparr>"
    by (simp add: processEntries_def show_nat_0)
  have "foldl count_tag [] (concat (map (\<lambda>e. []) es)) = []"
    by (induction es) simp_all
  then show "tagFrequencies (processEntries (map (\<lambda>e. e\<lparr>tags_user := []\<rparr>) es)) = []"
    by (simp add: tagFrequencies_processEntries count_tags_def comp_def)
  show "list_all (\<lambda>i. tone i = ''neutral'')
        (ideas (processEntries (map (\<lambda>e. e\<lparr>emotion_score_score := None\<rparr>) es)))"
    by (auto simp: ideas_processEntries list_all_iff make_idea_def Let_def tone_of_def)
  have one: "show_nat (Suc 0) = ''1''"
    by code_simp
  let ?e = "\<lparr> entry_id = i, user_id = u, transcript_user = ''try'', tags_model = m,
            tags_user = [], emotion_score_score = None \<rparr>"
  have "processEntries [?e] =
       \<lparr> summary = summary (processEntries [?e]),
         tagFrequencies = tagFrequencies (processEntries [?e]),
         ideas = ideas (processEntries [?e]) \<rparr>"
    by simp
  also have "\<dots> =
       \<lparr> summary = ''Analysis of 1 entries found 1 potential ideas'', tagFrequencies = [],
         ideas = [\<lparr> task_text = ''try'', status = ''new'', category = ''general'',
                    due_date = None, origin_type = ''planned'', tone = ''neutral'',
                    refinement_level = ''initial'', belief_level = ''medium'' \<rparr>] \<rparr>"
    unfolding summary_processEntries tagFrequencies_processEntries ideas_processEntries
    by (simp add: is_idea_spec make_idea_spec defaults_example one count_tags_def spec_tone_def)
  finally show "processEntries [?e] =
       \<lparr> summary = ''Analysis of 1 entries found 1 potential ideas'', tagFrequencies = [],
         ideas = [\<lparr> task_text = ''try'', status = ''new'', category = ''general'',
                    due_date = None, origin_type = ''planned'', tone = ''neutral'',
                    refinement_level = ''initial'', belief_level = ''medium'' \<rparr>] \<rparr>" .
qed

lemma inherited_tags_example:
  "tagFrequencies (processEntries
      [\<lparr> entry_id = ''a'', user_id = ''u'', transcript_user = ''try'', tags_model = [],
          tags_user = [''toString'', ''__proto__''], emotion_score_score = None \<rparr>])
   = [(''toString'', JString ''function toString() { [native code] }1'')]"
  by (simp add: tagFrequencies_processEntries count_tags_def count_tag_def set_property_def
      get_property_def object_prototype_def native_function_def)

text \<open>
  C8 fails on the code: the function returns a result for the well-typed entry with the
  tag list ["toString", "__proto__"], but the result is not well-formed. Its tag object
  maps "toString" to a string and not to a count, and has no key "__proto__"; the idea
  record of the entry is as it should be. The defect is the one of C2: the object literal
  inherits the properties of \<open>Object.prototype\<close>.
\<close>

theorem result_not_well_formed:
  "tagFrequencies (processEntries
      [\<lparr> entry_id = ''a'', user_id = ''u'', transcript_user = ''try'', tags_model = [],
          tags_user = [''toString'', ''__proto__''], emotion_score_score = None \<rparr>])
     = [(''toString'', JString ''function toString() { [native code] }1'')]
   \<and> \<not> well_formed_result (processEntries
      [\<lparr> entry_id = ''a'', user_id = ''u'', transcript_user = ''try'', tags_model = [],
          tags_user = [''toString'', ''__proto__''], emotion_score_score = None \<rparr>])"
  unfolding well_formed_result_def inherited_tags_example
  by (simp add: well_formed_tags_def)

section \<open>The fields the function reads\<close>

lemma process_entry_fields_read:
  assumes "fields_read a = fields_read b"
  shows "process_entry st a = process_entry st b"
proof -
  from assms have "transcript_user a = transcript_user b" "tags_user a = tags_user b"
    "emotion_score_score a = emotion_score_score b"
    by (simp_all add: fields_read_def)
  then show ?thesis
    by (simp add: process_entry_def is_idea_def make_idea_def Let_def)
qed

lemma foldl_process_entry_fields_read:
  assumes "list_all2 (\<lambda>a b. fields_read a = fields_read b) es1 es2"
  shows "foldl process_entry st es1 = foldl process_entry st es2"
  using assms
proof (induction es1 es2 arbitrary: st rule: list_all2_induct)
  case Nil
  show ?case by simp
next
  case (Cons a es1 b es2)
  then show ?case
    by (simp add: process_entry_fields_read [of a b])
qed

text \<open>
  C9: the result depends only on the transcript, the tag list and the emotion score of each
  entry: two inputs whose entries agree, one by one, on these three fields (and may differ
  in every other field, also in the fields of the extension) give equal results. The
  function has no state, so two calls on the same input are the case of equal inputs.
\<close>

theorem depends_only_on_fields_read:
  assumes "map fields_read es1 = map fields_read es2"
  shows "processEntries es1 = processEntries es2"
proof -
  have "list_all2 (=) (map fields_read es1) (map fields_read es2)"
    using assms by (simp add: list.rel_eq)
  then have r: "list_all2 (\<lambda>a b. fields_read a = fields_read b) es1 es2"
    by (simp add: list.rel_map)
  have l: "length es1 = length es2"
    using r by (rule list_all2_lengthD)
  show ?thesis
    unfolding processEntries_def foldl_process_entry_fields_read [OF r] l ..
qed

theorem depends_only_on_fields_read_witness:
  "map fields_read
     [\<lparr> entry_id = ''a'', user_id = ''u'', transcript_user = ''What if'',
         tags_model = [''x''], tags_user = [''work''], emotion_score_score = None \<rparr>]
   = map fields_read
     [\<lparr> entry_id = ''b'', user_id = ''v'', transcript_user = ''What if'',
         tags_model = [], tags_user = [''work''], emotion_score_score = None \<rparr>]
   \<and> processEntries
     [\<lparr> entry_id = ''a'', user_id = ''u'', transcript_user = ''What if'',
         tags_model = [''x''], tags_user = [''work''], emotion_score_score = None \<rparr>]
   = processEntries
     [\<lparr> entry_id = ''b'', user_id = ''v'', transcript_user = ''What if'',
         tags_model = [], tags_user = [''work''], emotion_score_score = None \<rparr>]"
proof -
  have h: "map fields_read
     [\<lparr> entry_id = ''a'', user_id = ''u'', transcript_user = ''What if'',
         tags_model = [''x''], tags_user = [''work''], emotion_score_score = None \<rparr>]
   = map fields_read
     [\<lparr> entry_id = ''b'', user_id = ''v'', transcript_user = ''What if'',
         tags_model = [], tags_user = [''work''], emotion_score_score = None \<rparr>]"
    by (simp add: fields_read_def)
  show ?thesis
    using h depends_only_on_fields_read [OF h] by (intro conjI)
qed

section \<open>Transcripts with "thinking about"\<close>

lemma thinking_about_lower: "toLowerCase ''thinking about'' = ''thinking about''"
  by code_simp

lemma thinking_about_contained:
  assumes "contains_ignoring_case ''thinking about'' t"
  shows "contains_any [''just thought of'', ''what if'', ''idea for'', ''thinking about'',
                       ''occurred to me'', ''imagine if'', ''how about''] (toLowerCase t)"
    and "contains_any [''thinking about'', ''considering''] (toLowerCase t)"
  using assms
  by (simp_all add: contains_ignoring_case_def thinking_about_lower contains_any_def)

text \<open>
  C10 as stated fails: the transcript "Thinking about the steps to take" contains
  "thinking about", and its refinement level is "detailed", not "conceptual", because
  the words of the detailed level ("steps to" here) are tested first.
\<close>

theorem thinking_about_counterexample:
  "contains_ignoring_case ''thinking about'' ''Thinking about the steps to take''
   \<and> map refinement_level (ideas (processEntries
        [\<lparr> entry_id = ''a'', user_id = ''u'',
            transcript_user = ''Thinking about the steps to take'',
            tags_model = [], tags_user = [], emotion_score_score = None \<rparr>])) = [''detailed'']"
proof -
  have "contains_ignoring_case ''thinking about'' ''Thinking about the steps to take''"
    "spec_is_idea (toLowerCase ''Thinking about the steps to take'')"
    "spec_refinement_level (toLowerCase ''Thinking about the steps to take'') = ''detailed''"
    by code_simp+
  then show ?thesis
    by (simp add: ideas_processEntries is_idea_spec make_idea_fields)
qed

text \<open>
  C10, amended: an entry whose transcript contains "thinking about", in any mix of cases,
  is classified as an idea and its origin type is "spontaneous"; its refinement level is
  "conceptual" unless the lower-cased transcript contains one of "detailed plan",
  "steps to" and "process for", and then it is "detailed".
\<close>

theorem thinking_about_amended:
  assumes "contains_ignoring_case ''thinking about'' (transcript_user e)"
  shows "ideas (processEntries [e]) = [make_idea e]
    \<and> origin_type (make_idea e) = ''spontaneous''
    \<and> refinement_level (make_idea e) =
        (if contains_any [''detailed plan'', ''steps to'', ''process for'']
              (toLowerCase (transcript_user e))
         then ''detailed'' else ''conceptual'')"
  using thinking_about_contained [OF assms]
  by (simp add: ideas_processEntries is_idea_spec make_idea_fields spec_is_idea_def
      spec_origin_type_def spec_refinement_level_def)

theorem thinking_about_amended_witness:
  "contains_ignoring_case ''thinking about'' ''I am thinking about creating something new''
   \<and> map origin_type (ideas (processEntries
        [\<lparr> entry_id = ''a'', user_id = ''u'',
            transcript_user = ''I am thinking about creating something new'',
            tags_model = [], tags_user = [], emotion_score_score = None \<rparr>])) = [''spontaneous'']
   \<and> map refinement_level (ideas (processEntries
        [\<lparr> entry_id = ''a'', user_id = ''u'',
            transcript_user = ''I am thinking about creating something new'',
            tags_model = [], tags_user = [], emotion_score_score = None \<rparr>])) = [''conceptual'']"
proof -
  have c: "contains_ignoring_case ''thinking about'' ''I am thinking about creating something new''"
    by code_simp
  have d: "\<not> contains_any [''detailed plan'', ''steps to'', ''process for'']
              (toLowerCase ''I am thinking about creating something new'')"
    by code_simp
  show ?thesis
    using c d thinking_about_amended
      [of "\<lparr> entry_id = ''a'', user_id = ''u'',
            transcript_user = ''I am thinking about creating something new'',
            tags_model = [], tags_user = [], emotion_score_score = None \<rparr>"]
    by simp
qed

end
